theory Spec2Isabelle
  imports Complex_Main
begin

section \<open>Numbers\<close>

text \<open>
  The program is TypeScript: every coordinate is a JavaScript number. The development
  works in exact real arithmetic, the data model the specification names ("positive real
  numbers"); rounding is not represented. A JavaScript division by zero does not raise:
  it yields Infinity or NaN, values the reals do not have. \<open>js_div\<close> makes that case
  visible as \<open>None\<close>, and every function that divides propagates it, so \<open>None\<close> reads
  "the program went on with a non-finite number", never "the program failed".
\<close>

definition js_div :: "real \<Rightarrow> real \<Rightarrow> real option" where
  "js_div a b = (if b = 0 then None else Some (a / b))"

section \<open>Data model (types.ts as used by the components)\<close>

record Position =
  pos_x :: real
  pos_y :: real

record Dimensions =
  width :: real
  height :: real

text \<open>The result of \<open>getBoundingClientRect()\<close>: the fields the handlers read.\<close>

record DOMRect =
  rc_left :: real
  rc_top :: real
  rc_width :: real
  rc_height :: real

record MouseEvent =
  clientX :: real
  clientY :: real

text \<open>The options object handed to \<open>page.drawImage\<close>: a rectangle in PDF points.\<close>

record DrawImageOptions =
  opt_x :: real
  opt_y :: real
  opt_width :: real
  opt_height :: real

section \<open>pdfService.ts: embedSignature\<close>

text \<open>
  Lines 153 to 170 of \<open>embedSignature\<close>: from the page's native size \<open>actual\<close>
  (\<open>page.getSize()\<close>), the overlay position, the size of the page as rendered on screen
  and the overlay size, the rectangle given to \<open>page.drawImage\<close>.
\<close>

definition drawImageOptions ::
  "Dimensions \<Rightarrow> Position \<Rightarrow> Dimensions \<Rightarrow> Dimensions \<Rightarrow> DrawImageOptions option" where
  "drawImageOptions actual position pdfPageDimensions signatureDimensions =
     (case js_div (width actual) (width pdfPageDimensions) of
        None \<Rightarrow> None
      | Some scaleX \<Rightarrow>
          (case js_div (height actual) (height pdfPageDimensions) of
             None \<Rightarrow> None
           | Some scaleY \<Rightarrow>
               (let sigWidth = width signatureDimensions * scaleX;
                    sigHeight = height signatureDimensions * scaleY;
                    pdfX = pos_x position * scaleX;
                    pdfY = height actual - ((pos_y position * scaleY) + sigHeight)
                in Some \<lparr>opt_x = pdfX, opt_y = pdfY,
                          opt_width = sigWidth, opt_height = sigHeight\<rparr>)))"

text \<open>
  \<open>InvalidDimensions\<close> is the error the specification names for the mapping step; it is
  declared so that statements about it can be written. \<open>TypeError\<close> is what
  \<open>page.getSize()\<close> raises when \<open>pages[pageIndex]\<close> is \<open>undefined\<close>.
\<close>

datatype commit_error = TypeError | InvalidDimensions

text \<open>
  \<open>embedSignature\<close>, with the loaded document given by the native sizes of its pages
  (\<open>pdfDoc.getPages()\<close>, each with its \<open>getSize()\<close>). Loading the bytes, embedding the
  PNG and saving belong to pdf-lib and are taken to succeed. The result is the one
  \<open>page.drawImage\<close> call the function makes, or the exception raised before it.
\<close>

definition embedSignature ::
  "Dimensions list \<Rightarrow> int \<Rightarrow> Position \<Rightarrow> Dimensions \<Rightarrow> Dimensions
     \<Rightarrow> commit_error + DrawImageOptions option" where
  "embedSignature pages pageIndex position pdfPageDimensions signatureDimensions =
     (if 0 \<le> pageIndex \<and> pageIndex < int (length pages)
      then Inr (drawImageOptions (pages ! nat pageIndex) position pdfPageDimensions
                  signatureDimensions)
      else Inl TypeError)"

section \<open>SigningWorkspace.tsx: component state\<close>

text \<open>
  The \<open>useState\<close> cells of the component that the handlers read or write. The \<open>scale\<close>
  cell is only ever written and is left out.
\<close>

record workspace =
  currentPage :: int
  numPages :: int
  isRendering :: bool
  sigPosition :: Position
  sigDimensions :: Dimensions
  isDragging :: bool
  isResizing :: bool
  dragOffset :: Position
  resizeStart :: Position
  initialResizeDims :: Dimensions
  initialized :: bool
  isProcessing :: bool

text \<open>The initial values of the cells, for a document of \<open>n\<close> pages once it is loaded.\<close>

definition initialWorkspace :: "int \<Rightarrow> workspace" where
  "initialWorkspace n =
     \<lparr>currentPage = 1, numPages = n, isRendering = True,
      sigPosition = \<lparr>pos_x = 0, pos_y = 0\<rparr>,
      sigDimensions = \<lparr>width = 100, height = 50\<rparr>,
      isDragging = False, isResizing = False,
      dragOffset = \<lparr>pos_x = 0, pos_y = 0\<rparr>,
      resizeStart = \<lparr>pos_x = 0, pos_y = 0\<rparr>,
      initialResizeDims = \<lparr>width = 0, height = 0\<rparr>,
      initialized = False, isProcessing = False\<rparr>"

subsection \<open>Image load: the overlay size from the signature's aspect ratio\<close>

text \<open>\<open>img.onload\<close> (lines 96 to 103); \<open>img\<close> is the decoded image's intrinsic size.\<close>

definition imgOnload :: "Dimensions \<Rightarrow> workspace \<Rightarrow> workspace option" where
  "imgOnload img s =
     (case js_div (width img) (height img) of
        None \<Rightarrow> None
      | Some aspectRatio \<Rightarrow>
          (let baseWidth = 100 in
           case js_div baseWidth aspectRatio of
             None \<Rightarrow> None
           | Some h \<Rightarrow> Some (s\<lparr>sigDimensions := \<lparr>width = baseWidth, height = h\<rparr>\<rparr>)))"

subsection \<open>The render effect\<close>

text \<open>
  The effect of lines 60 to 90 runs when \<open>pdfDoc\<close> or \<open>currentPage\<close> changes. Its body
  is an asynchronous function: it reads \<open>initialized\<close> and \<open>sigDimensions\<close> from the
  closure of the render pass that created it, awaits the page and its rasterisation, and
  only then writes the cells. So the effect is three functions:
  \<^item> \<open>renderClosure\<close>, the values the effect created in a state holds;
  \<^item> \<open>renderEffect\<close>, the synchronous start, where \<open>ready\<close> is
    \<open>pdfDoc && canvasRef.current\<close> (line 62);
  \<^item> \<open>renderCompleted\<close>, the continuation after \<open>await renderPageToCanvas\<close>, applied
    to the state as it is by then; \<open>canvas\<close> is the size of the canvas element after
    rasterisation, \<open>None\<close> when the ref is empty by then.

  \<open>renderFailed\<close> is the continuation when an awaited call rejects (\<open>catch\<close>, then
  \<open>finally\<close>).
\<close>

record render_closure =
  cl_initialized :: bool
  cl_sigDimensions :: Dimensions

definition renderClosure :: "workspace \<Rightarrow> render_closure" where
  "renderClosure s = \<lparr>cl_initialized = initialized s, cl_sigDimensions = sigDimensions s\<rparr>"

definition renderEffect :: "bool \<Rightarrow> workspace \<Rightarrow> workspace" where
  "renderEffect ready s = (if \<not> ready then s else s\<lparr>isRendering := True\<rparr>)"

definition renderCompleted :: "render_closure \<Rightarrow> Dimensions option \<Rightarrow> workspace \<Rightarrow> workspace" where
  "renderCompleted cl canvas s =
     (let s1 = (case canvas of
                  None \<Rightarrow> s
                | Some c \<Rightarrow>
                    if \<not> cl_initialized cl
                    then s\<lparr>sigPosition :=
                             \<lparr>pos_x = (width c / 2) - (width (cl_sigDimensions cl) / 2),
                              pos_y = (height c / 3) - (height (cl_sigDimensions cl) / 2)\<rparr>,
                           initialized := True\<rparr>
                    else s)
      in s1\<lparr>isRendering := False\<rparr>)"

definition renderFailed :: "workspace \<Rightarrow> workspace" where
  "renderFailed s = s\<lparr>isRendering := False\<rparr>"

subsection \<open>Global mouse handlers\<close>

text \<open>
  \<open>handleGlobalMove\<close> (lines 108 to 140). \<open>canvas\<close> is
  \<open>canvasRef.current.getBoundingClientRect()\<close>, \<open>None\<close> when the ref is empty.
\<close>

definition handleGlobalMove :: "workspace \<Rightarrow> DOMRect option \<Rightarrow> MouseEvent \<Rightarrow> workspace option" where
  "handleGlobalMove s canvas e =
     (case canvas of
        None \<Rightarrow> Some s
      | Some canvasRect \<Rightarrow>
          if isDragging s then
            (let relativeX = clientX e - rc_left canvasRect - pos_x (dragOffset s);
                 relativeY = clientY e - rc_top canvasRect - pos_y (dragOffset s);
                 maxX = rc_width canvasRect - width (sigDimensions s);
                 maxY = rc_height canvasRect - height (sigDimensions s)
             in Some (s\<lparr>sigPosition := \<lparr>pos_x = min (max 0 relativeX) maxX,
                                         pos_y = min (max 0 relativeY) maxY\<rparr>\<rparr>))
          else if isResizing s then
            (let deltaX = clientX e - pos_x (resizeStart s) in
             case js_div (width (initialResizeDims s)) (height (initialResizeDims s)) of
               None \<Rightarrow> None
             | Some aspectRatio \<Rightarrow>
                 (let newWidth = max 30 (min (width (initialResizeDims s) + deltaX)
                                             (rc_width canvasRect - pos_x (sigPosition s)))
                  in case js_div newWidth aspectRatio of
                       None \<Rightarrow> None
                     | Some newHeight \<Rightarrow>
                         if pos_y (sigPosition s) + newHeight \<le> rc_height canvasRect
                         then Some (s\<lparr>sigDimensions := \<lparr>width = newWidth, height = newHeight\<rparr>\<rparr>)
                         else Some s))
          else Some s)"

definition handleGlobalUp :: "workspace \<Rightarrow> workspace" where
  "handleGlobalUp s = s\<lparr>isDragging := False, isResizing := False\<rparr>"

text \<open>\<open>startDrag\<close>; \<open>rect\<close> is the bounding rectangle of the overlay element.\<close>

definition startDrag :: "MouseEvent \<Rightarrow> DOMRect \<Rightarrow> workspace \<Rightarrow> workspace" where
  "startDrag e rect s =
     (if isResizing s then s
      else s\<lparr>dragOffset := \<lparr>pos_x = clientX e - rc_left rect, pos_y = clientY e - rc_top rect\<rparr>,
             isDragging := True\<rparr>)"

definition startResize :: "MouseEvent \<Rightarrow> workspace \<Rightarrow> workspace" where
  "startResize e s =
     s\<lparr>isResizing := True,
       resizeStart := \<lparr>pos_x = clientX e, pos_y = clientY e\<rparr>,
       initialResizeDims := sigDimensions s\<rparr>"

text \<open>
  The pointer events of a placement session, and the session as a run over them. The
  overlay and its resize handle are in the page only while \<open>!isRendering\<close> (line 253),
  so no press reaches them during a render; the document listeners exist only while
  \<open>isDragging || isResizing\<close> holds (lines 147 to 150).
\<close>

datatype gesture =
    StartDrag MouseEvent DOMRect
  | StartResize MouseEvent
  | MouseMove "DOMRect option" MouseEvent
  | MouseUp

fun gesture_step :: "gesture \<Rightarrow> workspace \<Rightarrow> workspace option" where
  "gesture_step (StartDrag e rect) s =
     (if isRendering s then Some s else Some (startDrag e rect s))"
| "gesture_step (StartResize e) s =
     (if isRendering s then Some s else Some (startResize e s))"
| "gesture_step (MouseMove canvas e) s =
     (if isDragging s \<or> isResizing s then handleGlobalMove s canvas e else Some s)"
| "gesture_step MouseUp s =
     (if isDragging s \<or> isResizing s then Some (handleGlobalUp s) else Some s)"

fun gesture_run :: "gesture list \<Rightarrow> workspace \<Rightarrow> workspace option" where
  "gesture_run [] s = Some s"
| "gesture_run (g # gs) s =
     (case gesture_step g s of None \<Rightarrow> None | Some s' \<Rightarrow> gesture_run gs s')"

subsection \<open>Page navigation buttons\<close>

text \<open>
  Lines 216 to 232: each button has a \<open>disabled\<close> attribute and an \<open>onClick\<close> updater.
  A disabled button dispatches no click, which \<open>clickPrev\<close> and \<open>clickNext\<close> express.
\<close>

definition prevDisabled :: "workspace \<Rightarrow> bool" where
  "prevDisabled s = (currentPage s \<le> 1)"

definition prevOnClick :: "workspace \<Rightarrow> workspace" where
  "prevOnClick s = s\<lparr>currentPage := currentPage s - 1\<rparr>"

definition nextDisabled :: "workspace \<Rightarrow> bool" where
  "nextDisabled s = (currentPage s \<ge> numPages s)"

definition nextOnClick :: "workspace \<Rightarrow> workspace" where
  "nextOnClick s = s\<lparr>currentPage := currentPage s + 1\<rparr>"

definition clickPrev :: "workspace \<Rightarrow> workspace" where
  "clickPrev s = (if prevDisabled s then s else prevOnClick s)"

definition clickNext :: "workspace \<Rightarrow> workspace" where
  "clickNext s = (if nextDisabled s then s else nextOnClick s)"

subsection \<open>Finish\<close>

text \<open>
  \<open>handleFinish\<close> (lines 180 to 202), as the list of \<open>embedSignature\<close> calls it makes;
  \<open>canvas\<close> is the canvas element's \<open>width\<close> and \<open>height\<close>, \<open>None\<close> when the ref is
  empty.
\<close>

record embed_call =
  arg_pageIndex :: int
  arg_position :: Position
  arg_pdfPageDimensions :: Dimensions
  arg_signatureDimensions :: Dimensions

definition handleFinish :: "workspace \<Rightarrow> Dimensions option \<Rightarrow> embed_call list" where
  "handleFinish s canvas =
     (case canvas of
        None \<Rightarrow> []
      | Some c \<Rightarrow>
          [\<lparr>arg_pageIndex = currentPage s - 1, arg_position = sigPosition s,
            arg_pdfPageDimensions = \<lparr>width = width c, height = height c\<rparr>,
            arg_signatureDimensions = sigDimensions s\<rparr>])"

text \<open>What a finish hands to \<open>page.drawImage\<close>, for the document with pages \<open>pages\<close>.\<close>

definition finishDraws ::
  "Dimensions list \<Rightarrow> workspace \<Rightarrow> Dimensions option
     \<Rightarrow> (commit_error + DrawImageOptions option) list" where
  "finishDraws pages s canvas =
     map (\<lambda>c. embedSignature pages (arg_pageIndex c) (arg_position c)
                 (arg_pdfPageDimensions c) (arg_signatureDimensions c))
         (handleFinish s canvas)"

section \<open>SignaturePad.tsx\<close>

text \<open>
  The two \<open>useState\<close> cells of the pad. \<open>ctx\<close> tells whether
  \<open>canvasRef.current?.getContext('2d')\<close> is there; the bitmap itself is not modelled.
\<close>

record pad =
  isDrawing :: bool
  hasSignature :: bool

definition initialPad :: pad where
  "initialPad = \<lparr>isDrawing = False, hasSignature = False\<rparr>"

definition startDrawing :: "bool \<Rightarrow> pad \<Rightarrow> pad" where
  "startDrawing ctx p = p\<lparr>isDrawing := True\<rparr>"

definition draw :: "bool \<Rightarrow> pad \<Rightarrow> pad" where
  "draw ctx p =
     (if \<not> isDrawing p then p
      else if ctx then p\<lparr>hasSignature := True\<rparr> else p)"

definition stopDrawing :: "pad \<Rightarrow> pad" where
  "stopDrawing p = p\<lparr>isDrawing := False\<rparr>"

definition clearSignature :: "bool \<Rightarrow> pad \<Rightarrow> pad" where
  "clearSignature ctx p = (if ctx then p\<lparr>hasSignature := False\<rparr> else p)"

text \<open>The \<open>disabled\<close> attribute of the "Use Signature" button (line 140).\<close>

definition saveDisabled :: "pad \<Rightarrow> bool" where
  "saveDisabled p = (\<not> hasSignature p)"

datatype pad_event = PointerDown | PointerMove | PointerUp | Clear

fun pad_step :: "bool \<Rightarrow> pad_event \<Rightarrow> pad \<Rightarrow> pad" where
  "pad_step ctx PointerDown p = startDrawing ctx p"
| "pad_step ctx PointerMove p = draw ctx p"
| "pad_step ctx PointerUp p = stopDrawing p"
| "pad_step ctx Clear p = clearSignature ctx p"

section \<open>Quantities and predicates the statements use\<close>

text \<open>
  The locals \<open>newWidth\<close> and \<open>newHeight\<close> of the resize branch of \<open>handleGlobalMove\<close>,
  as functions of the state, the canvas rectangle and the event. \<open>newHeight\<close> is the
  quotient as a real; it is the program's value when both dimensions recorded at the
  start of the resize are non-zero (lemma \<open>resize_update\<close>).
\<close>

definition newWidth :: "workspace \<Rightarrow> DOMRect \<Rightarrow> MouseEvent \<Rightarrow> real" where
  "newWidth s r e =
     max 30 (min (width (initialResizeDims s) + (clientX e - pos_x (resizeStart s)))
                 (rc_width r - pos_x (sigPosition s)))"

definition newHeight :: "workspace \<Rightarrow> DOMRect \<Rightarrow> MouseEvent \<Rightarrow> real" where
  "newHeight s r e =
     newWidth s r e / (width (initialResizeDims s) / height (initialResizeDims s))"

text \<open>The overlay's box lies in the canvas rectangle and is at least 30 wide.\<close>

definition inViewport :: "workspace \<Rightarrow> DOMRect \<Rightarrow> bool" where
  "inViewport s r =
     (0 \<le> pos_x (sigPosition s) \<and> 0 \<le> pos_y (sigPosition s)
      \<and> pos_x (sigPosition s) + width (sigDimensions s) \<le> rc_width r
      \<and> pos_y (sigPosition s) + height (sigDimensions s) \<le> rc_height r
      \<and> 30 \<le> width (sigDimensions s))"

text \<open>
  The invariant behind aspect-ratio preservation: the overlay has ratio \<open>r\<close>, and so
  has the size recorded by \<open>startResize\<close> while a resize is in progress.
\<close>

definition ratio_inv :: "real \<Rightarrow> workspace \<Rightarrow> bool" where
  "ratio_inv r s =
     (0 < width (sigDimensions s) \<and> 0 < height (sigDimensions s)
      \<and> width (sigDimensions s) = r * height (sigDimensions s)
      \<and> (isResizing s \<longrightarrow>
            0 < width (initialResizeDims s) \<and> 0 < height (initialResizeDims s)
            \<and> width (initialResizeDims s) = r * height (initialResizeDims s)))"

text \<open>
  A render that runs alone: the effect starts and its continuation runs before anything
  else happens, so the closure holds the current values.
\<close>

definition renderPage :: "Dimensions \<Rightarrow> workspace \<Rightarrow> workspace" where
  "renderPage c s = renderCompleted (renderClosure s) (Some c) (renderEffect True s)"

section \<open>Concrete sessions\<close>

text \<open>
  A two-page document. Page 1 is US Letter rendered at scale 1.5 (canvas 918 by 1188);
  page 2 is a smaller page (canvas 450 by 600). The canvas sits at the window's origin.
\<close>

definition canvas1 :: Dimensions where
  "canvas1 = \<lparr>width = 918, height = 1188\<rparr>"

definition rect1 :: DOMRect where
  "rect1 = \<lparr>rc_left = 0, rc_top = 0, rc_width = 918, rc_height = 1188\<rparr>"

definition canvas2 :: Dimensions where
  "canvas2 = \<lparr>width = 450, height = 600\<rparr>"

definition rect2 :: DOMRect where
  "rect2 = \<lparr>rc_left = 0, rc_top = 0, rc_width = 450, rc_height = 600\<rparr>"

text \<open>Page 1 rendered: the overlay (100 by 50) is centred at (409, 371).\<close>

definition placed :: workspace where
  "placed = renderPage canvas1 (initialWorkspace 2)"

text \<open>
  Session A. On page 1 the user pulls the resize handle 500 pixels to the right (the
  width stops at the canvas edge: 509 by 254.5), releases, goes to page 2, which is
  rendered, and presses the mouse button on the overlay 10 pixels inside its corner.
\<close>

definition widened :: "workspace option" where
  "widened = gesture_run
     [StartResize \<lparr>clientX = 509, clientY = 421\<rparr>,
      MouseMove (Some rect1) \<lparr>clientX = 1009, clientY = 421\<rparr>,
      MouseUp] placed"

definition onPage2 :: "workspace option" where
  "onPage2 = map_option (\<lambda>s. renderPage canvas2 (clickNext s)) widened"

definition dragStarted :: "workspace option" where
  "dragStarted = map_option
     (startDrag \<lparr>clientX = 419, clientY = 381\<rparr>
        \<lparr>rc_left = 409, rc_top = 371, rc_width = 509, rc_height = 509 / 2\<rparr>) onPage2"

text \<open>
  Session A'. The user leaves the overlay as page 1 placed it (100 by 50 at (409, 371))
  and goes to page 2, which is rendered: the overlay now reaches past the right edge of
  the 450-wide canvas, but is smaller than the canvas.
\<close>

definition staleOnPage2 :: workspace where
  "staleOnPage2 = renderPage canvas2 (clickNext placed)"

text \<open>
  Session B. The user presses the resize handle while the overlay still has its default
  size 100 by 50; then the signature image (448 by 256) finishes loading.
\<close>

definition loadedWhileResizing :: "workspace option" where
  "loadedWhileResizing =
     imgOnload \<lparr>width = 448, height = 256\<rparr>
       (startResize \<lparr>clientX = 509, clientY = 421\<rparr> placed)"

text \<open>
  Session C. The render effect for page 1 starts; before it completes the user clicks
  "next", so the effect for page 2 is created and starts as well. The first render
  completes; the user drags the overlay to (100, 200); the second render completes.
\<close>

definition firstClosure :: render_closure where
  "firstClosure = renderClosure (initialWorkspace 2)"

definition nextClicked :: workspace where
  "nextClicked = clickNext (renderEffect True (initialWorkspace 2))"

definition secondClosure :: render_closure where
  "secondClosure = renderClosure nextClicked"

definition firstDone :: workspace where
  "firstDone = renderCompleted firstClosure (Some canvas1) (renderEffect True nextClicked)"

definition movedBetween :: "workspace option" where
  "movedBetween = gesture_run
     [StartDrag \<lparr>clientX = 419, clientY = 381\<rparr>
        \<lparr>rc_left = 409, rc_top = 371, rc_width = 100, rc_height = 50\<rparr>,
      MouseMove (Some rect1) \<lparr>clientX = 110, clientY = 210\<rparr>,
      MouseUp] firstDone"

definition secondDone :: "workspace option" where
  "secondDone = map_option (renderCompleted secondClosure (Some canvas2)) movedBetween"

section \<open>The conversion to document space\<close>

lemma drawImageOptions_finite:
  assumes "width pdfPageDimensions \<noteq> 0" and "height pdfPageDimensions \<noteq> 0"
  shows "drawImageOptions actual position pdfPageDimensions signatureDimensions =
     Some \<lparr>opt_x = pos_x position * (width actual / width pdfPageDimensions),
           opt_y = height actual -
                   (pos_y position * (height actual / height pdfPageDimensions) +
                    height signatureDimensions * (height actual / height pdfPageDimensions)),
           opt_width = width signatureDimensions * (width actual / width pdfPageDimensions),
           opt_height = height signatureDimensions * (height actual / height pdfPageDimensions)\<rparr>"
  using assms by (simp add: drawImageOptions_def js_div_def Let_def)

text \<open>
  Claim C1. For an overlay, a rendered page and a native page size with positive
  dimensions, \<open>embedSignature\<close> hands \<open>page.drawImage\<close> the rectangle with
  \<open>scaleX = nativeWidth / renderedWidth\<close>, \<open>scaleY = nativeHeight / renderedHeight\<close>,
  \<open>width = overlay.width * scaleX\<close>, \<open>height = overlay.height * scaleY\<close>,
  \<open>x = overlay.x * scaleX\<close> and
  \<open>y = nativeHeight - (overlay.y * scaleY + overlay.height * scaleY)\<close>: the Y axis is
  inverted and offset by the converted overlay height.
\<close>

theorem embedSignature_document_rect:
  assumes "0 \<le> pageIndex" and "pageIndex < int (length pages)"
    and "0 < width (pages ! nat pageIndex)" and "0 < height (pages ! nat pageIndex)"
    and "0 < width rendered" and "0 < height rendered"
    and "0 < width overlaySize" and "0 < height overlaySize"
  shows "embedSignature pages pageIndex overlayPos rendered overlaySize =
     (let native = pages ! nat pageIndex;
          scaleX = width native / width rendered;
          scaleY = height native / height rendered
      in Inr (Some \<lparr>opt_x = pos_x overlayPos * scaleX,
                    opt_y = height native - (pos_y overlayPos * scaleY + height overlaySize * scaleY),
                    opt_width = width overlaySize * scaleX,
                    opt_height = height overlaySize * scaleY\<rparr>))"
  using assms by (simp add: embedSignature_def drawImageOptions_finite Let_def)

text \<open>
  The specification's scenario: viewport 800 by 1000, US Letter (612 by 792), overlay at
  (350, 300) of size 100 by 50. The rectangle is x = 267.75, y = 514.8, 76.5 by 39.6.
\<close>

theorem embedSignature_document_rect_witness:
  "embedSignature [\<lparr>width = 612, height = 792\<rparr>] 0 \<lparr>pos_x = 350, pos_y = 300\<rparr>
     \<lparr>width = 800, height = 1000\<rparr> \<lparr>width = 100, height = 50\<rparr>
   = Inr (Some \<lparr>opt_x = 1071 / 4, opt_y = 2574 / 5, opt_width = 153 / 2, opt_height = 198 / 5\<rparr>)"
  using embedSignature_document_rect [of 0 "[\<lparr>width = 612, height = 792\<rparr>]"
      "\<lparr>width = 800, height = 1000\<rparr>" "\<lparr>width = 100, height = 50\<rparr>" "\<lparr>pos_x = 350, pos_y = 300\<rparr>"]
  by (simp add: Let_def)

text \<open>
  Claim C3, as stated: the mapping step fails with \<open>InvalidDimensions\<close> whenever an
  input dimension is at most 0. It does not: \<open>embedSignature\<close> tests no dimension. With
  an overlay of width 0 (every divisor positive) it returns a rectangle of width 0.
\<close>

theorem embedSignature_zero_width_counterexample:
  "embedSignature [\<lparr>width = 612, height = 792\<rparr>] 0 \<lparr>pos_x = 350, pos_y = 300\<rparr>
     \<lparr>width = 800, height = 1000\<rparr> \<lparr>width = 0, height = 50\<rparr>
   = Inr (Some \<lparr>opt_x = 1071 / 4, opt_y = 2574 / 5, opt_width = 0, opt_height = 198 / 5\<rparr>)
   \<and> embedSignature [\<lparr>width = 612, height = 792\<rparr>] 0 \<lparr>pos_x = 350, pos_y = 300\<rparr>
     \<lparr>width = 800, height = 1000\<rparr> \<lparr>width = 0, height = 50\<rparr> \<noteq> Inl InvalidDimensions"
  by (simp add: embedSignature_def drawImageOptions_def js_div_def Let_def)

text \<open>
  Claim C3, amended. The mapping step validates nothing and never fails with
  \<open>InvalidDimensions\<close>: for a page that exists and a rendered page whose width and
  height are not 0, it returns the rectangle of the formulas of C1 whatever the signs of
  the overlay size and of the native page size.
\<close>

theorem embedSignature_never_InvalidDimensions:
  "embedSignature pages pageIndex overlayPos rendered overlaySize \<noteq> Inl InvalidDimensions
   \<and> (0 \<le> pageIndex \<and> pageIndex < int (length pages)
        \<and> width rendered \<noteq> 0 \<and> height rendered \<noteq> 0 \<longrightarrow>
      embedSignature pages pageIndex overlayPos rendered overlaySize =
        (let native = pages ! nat pageIndex;
             scaleX = width native / width rendered;
             scaleY = height native / height rendered
         in Inr (Some \<lparr>opt_x = pos_x overlayPos * scaleX,
                       opt_y = height native - (pos_y overlayPos * scaleY + height overlaySize * scaleY),
                       opt_width = width overlaySize * scaleX,
                       opt_height = height overlaySize * scaleY\<rparr>)))"
  by (simp add: embedSignature_def drawImageOptions_finite Let_def)

theorem embedSignature_never_InvalidDimensions_witness:
  "embedSignature [\<lparr>width = -612, height = 792\<rparr>] 0 \<lparr>pos_x = 350, pos_y = 300\<rparr>
     \<lparr>width = 800, height = 1000\<rparr> \<lparr>width = 100, height = -50\<rparr>
   = Inr (Some \<lparr>opt_x = - (1071 / 4), opt_y = 594, opt_width = - (153 / 2), opt_height = - (198 / 5)\<rparr>)"
  using embedSignature_never_InvalidDimensions [of "[\<lparr>width = -612, height = 792\<rparr>]" 0
      "\<lparr>pos_x = 350, pos_y = 300\<rparr>" "\<lparr>width = 800, height = 1000\<rparr>" "\<lparr>width = 100, height = -50\<rparr>"]
  by (simp add: Let_def)

text \<open>
  Claim C6, as stated: doubling the rendered page while halving the overlay's position
  and size gives the same rectangle. It gives a different one: the scale factors halve
  and the overlay halves, so every length is a quarter. At the scenario of C1 the
  rectangle is x = 66.9375, 19.125 wide, against x = 267.75, 76.5 wide.
\<close>

theorem drawImageOptions_double_halve_counterexample:
  "drawImageOptions \<lparr>width = 612, height = 792\<rparr>
     \<lparr>pos_x = 350 / 2, pos_y = 300 / 2\<rparr>
     \<lparr>width = 2 * 800, height = 2 * 1000\<rparr>
     \<lparr>width = 100 / 2, height = 50 / 2\<rparr>
   = Some \<lparr>opt_x = 1071 / 16, opt_y = 7227 / 10, opt_width = 153 / 8, opt_height = 99 / 10\<rparr>
   \<and> drawImageOptions \<lparr>width = 612, height = 792\<rparr>
     \<lparr>pos_x = 350, pos_y = 300\<rparr>
     \<lparr>width = 800, height = 1000\<rparr>
     \<lparr>width = 100, height = 50\<rparr>
   = Some \<lparr>opt_x = 1071 / 4, opt_y = 2574 / 5, opt_width = 153 / 2, opt_height = 198 / 5\<rparr>
   \<and> drawImageOptions \<lparr>width = 612, height = 792\<rparr>
     \<lparr>pos_x = 350 / 2, pos_y = 300 / 2\<rparr>
     \<lparr>width = 2 * 800, height = 2 * 1000\<rparr>
     \<lparr>width = 100 / 2, height = 50 / 2\<rparr>
   \<noteq> drawImageOptions \<lparr>width = 612, height = 792\<rparr>
     \<lparr>pos_x = 350, pos_y = 300\<rparr>
     \<lparr>width = 800, height = 1000\<rparr>
     \<lparr>width = 100, height = 50\<rparr>"
  by (simp add: drawImageOptions_def js_div_def Let_def)

text \<open>
  Claim C6, amended. The conversion is invariant under a common scale: multiplying the
  rendered page's width and height and the overlay's position and size by the same
  factor \<open>k > 0\<close> (doubling both, for \<open>k = 2\<close>) gives the same document-space
  rectangle, for every input with positive rendered dimensions.
\<close>

theorem drawImageOptions_scale_invariant:
  assumes "0 < width rendered" and "0 < height rendered" and "0 < k"
  shows "drawImageOptions native
           \<lparr>pos_x = k * pos_x overlayPos, pos_y = k * pos_y overlayPos\<rparr>
           \<lparr>width = k * width rendered, height = k * height rendered\<rparr>
           \<lparr>width = k * width overlaySize, height = k * height overlaySize\<rparr>
         = drawImageOptions native overlayPos rendered overlaySize
         \<and> drawImageOptions native overlayPos rendered overlaySize \<noteq> None"
  using assms by (simp add: drawImageOptions_def js_div_def Let_def)

theorem drawImageOptions_scale_invariant_witness:
  "drawImageOptions \<lparr>width = 612, height = 792\<rparr>
     \<lparr>pos_x = 2 * 350, pos_y = 2 * 300\<rparr>
     \<lparr>width = 2 * 800, height = 2 * 1000\<rparr>
     \<lparr>width = 2 * 100, height = 2 * 50\<rparr>
   = drawImageOptions \<lparr>width = 612, height = 792\<rparr>
     \<lparr>pos_x = 350, pos_y = 300\<rparr>
     \<lparr>width = 800, height = 1000\<rparr>
     \<lparr>width = 100, height = 50\<rparr>"
  using drawImageOptions_scale_invariant [of "\<lparr>width = 800, height = 1000\<rparr>" 2
     "\<lparr>width = 612, height = 792\<rparr>" "\<lparr>pos_x = 350, pos_y = 300\<rparr>" "\<lparr>width = 100, height = 50\<rparr>"]
  by simp

section \<open>Drag and resize updates\<close>

lemma drag_update:
  assumes "isDragging s"
  shows "handleGlobalMove s (Some r) e =
     Some (s\<lparr>sigPosition :=
        \<lparr>pos_x = min (max 0 (clientX e - rc_left r - pos_x (dragOffset s)))
                      (rc_width r - width (sigDimensions s)),
         pos_y = min (max 0 (clientY e - rc_top r - pos_y (dragOffset s)))
                      (rc_height r - height (sigDimensions s))\<rparr>\<rparr>)"
  using assms by (simp add: handleGlobalMove_def Let_def)

lemma newWidth_ge: "30 \<le> newWidth s r e"
  by (simp add: newWidth_def)

lemma resize_update:
  assumes "\<not> isDragging s" and "isResizing s"
    and "width (initialResizeDims s) \<noteq> 0" and "height (initialResizeDims s) \<noteq> 0"
  shows "handleGlobalMove s (Some r) e =
     Some (if pos_y (sigPosition s) + newHeight s r e \<le> rc_height r
           then s\<lparr>sigDimensions := \<lparr>width = newWidth s r e, height = newHeight s r e\<rparr>\<rparr>
           else s)"
proof -
  have "newWidth s r e \<noteq> 0" using newWidth_ge [of s r e] by linarith
  then show ?thesis
    using assms
    by (simp add: handleGlobalMove_def js_div_def Let_def newHeight_def newWidth_def)
qed

lemma placed_eq:
  "placed = (initialWorkspace 2)\<lparr>isRendering := False, initialized := True,
     sigPosition := \<lparr>pos_x = 409, pos_y = 371\<rparr>\<rparr>"
  by (simp add: placed_def renderPage_def renderEffect_def renderClosure_def renderCompleted_def
      canvas1_def initialWorkspace_def Let_def)

lemma widened_eq:
  "widened = Some (placed\<lparr>sigDimensions := \<lparr>width = 509, height = 509 / 2\<rparr>,
     resizeStart := \<lparr>pos_x = 509, pos_y = 421\<rparr>,
     initialResizeDims := \<lparr>width = 100, height = 50\<rparr>\<rparr>)"
  by (simp add: widened_def placed_eq initialWorkspace_def startResize_def handleGlobalMove_def
      handleGlobalUp_def js_div_def rect1_def Let_def)

lemma dragStarted_eq:
  "dragStarted = Some ((initialWorkspace 2)
     \<lparr>isRendering := False, initialized := True, currentPage := 2,
      sigPosition := \<lparr>pos_x = 409, pos_y = 371\<rparr>,
      sigDimensions := \<lparr>width = 509, height = 509 / 2\<rparr>,
      resizeStart := \<lparr>pos_x = 509, pos_y = 421\<rparr>,
      initialResizeDims := \<lparr>width = 100, height = 50\<rparr>,
      dragOffset := \<lparr>pos_x = 10, pos_y = 10\<rparr>, isDragging := True\<rparr>)"
  by (simp add: dragStarted_def onPage2_def widened_eq placed_eq initialWorkspace_def
      clickNext_def nextDisabled_def nextOnClick_def renderPage_def renderEffect_def
      renderClosure_def renderCompleted_def startDrag_def canvas2_def Let_def)

lemma staleOnPage2_eq:
  "staleOnPage2 = placed\<lparr>currentPage := 2\<rparr>"
  by (simp add: staleOnPage2_def renderPage_def renderEffect_def renderClosure_def
      renderCompleted_def clickNext_def nextDisabled_def nextOnClick_def placed_eq
      initialWorkspace_def canvas2_def Let_def)

text \<open>
  Claim C2, as stated: after any completed drag or resize update the box satisfies
  \<open>0 \<le> x\<close>, \<open>0 \<le> y\<close>, \<open>x + width \<le> viewportWidth\<close>,
  \<open>y + height \<le> viewportHeight\<close> and \<open>width \<ge> 30\<close>. Session A refutes it: the overlay
  was widened to 509 on page 1 and page 2 is 450 wide, so the upper clamp
  \<open>maxX = 450 - 509\<close> is negative and the drag update to the pointer (300, 300) puts
  the overlay at x = -59.
\<close>

theorem drag_on_smaller_page_counterexample:
  "dragStarted \<noteq> None
   \<and> isDragging (the dragStarted)
   \<and> sigPosition (the dragStarted) = \<lparr>pos_x = 409, pos_y = 371\<rparr>
   \<and> sigDimensions (the dragStarted) = \<lparr>width = 509, height = 509 / 2\<rparr>
   \<and> handleGlobalMove (the dragStarted) (Some rect2) \<lparr>clientX = 300, clientY = 300\<rparr>
       = Some ((the dragStarted)\<lparr>sigPosition := \<lparr>pos_x = - 59, pos_y = 290\<rparr>\<rparr>)
   \<and> \<not> inViewport ((the dragStarted)\<lparr>sigPosition := \<lparr>pos_x = - 59, pos_y = 290\<rparr>\<rparr>) rect2"
  by (simp add: dragStarted_eq handleGlobalMove_def inViewport_def rect2_def
      initialWorkspace_def Let_def)

text \<open>
  Claim C2, amended. A drag update always completes, keeps the size, and leaves the box
  satisfying \<open>0 \<le> x\<close>, \<open>0 \<le> y\<close>, \<open>x + width \<le> viewportWidth\<close>,
  \<open>y + height \<le> viewportHeight\<close> and \<open>width \<ge> 30\<close> exactly when the overlay is no larger
  than the viewport and at least 30 wide, wherever it was before. A resize update (the
  size recorded at its start having non-zero width and height) is either applied, and
  then the box satisfies the five bounds exactly when \<open>0 \<le> x\<close>, \<open>0 \<le> y\<close> and
  \<open>x + 30 \<le> viewportWidth\<close>, or, when \<open>y + newHeight\<close> would pass the viewport height,
  dropped: the state is left exactly as it was.
\<close>

theorem overlay_update_bounds:
  "(isDragging s \<longrightarrow>
      (\<exists>s'. handleGlobalMove s (Some r) e = Some s'
         \<and> sigDimensions s' = sigDimensions s
         \<and> (inViewport s' r \<longleftrightarrow>
              width (sigDimensions s) \<le> rc_width r \<and> height (sigDimensions s) \<le> rc_height r
              \<and> 30 \<le> width (sigDimensions s))))
   \<and> (\<not> isDragging s \<and> isResizing s \<and> width (initialResizeDims s) \<noteq> 0
        \<and> height (initialResizeDims s) \<noteq> 0 \<longrightarrow>
      (\<exists>s'. handleGlobalMove s (Some r) e = Some s'
         \<and> (if pos_y (sigPosition s) + newHeight s r e \<le> rc_height r
             then s' = s\<lparr>sigDimensions := \<lparr>width = newWidth s r e, height = newHeight s r e\<rparr>\<rparr>
                  \<and> (inViewport s' r \<longleftrightarrow>
                       0 \<le> pos_x (sigPosition s) \<and> 0 \<le> pos_y (sigPosition s)
                       \<and> pos_x (sigPosition s) + 30 \<le> rc_width r)
             else s' = s)))"
proof (intro conjI impI)
  assume d: "isDragging s"
  show "\<exists>s'. handleGlobalMove s (Some r) e = Some s'
         \<and> sigDimensions s' = sigDimensions s
         \<and> (inViewport s' r \<longleftrightarrow>
              width (sigDimensions s) \<le> rc_width r \<and> height (sigDimensions s) \<le> rc_height r
              \<and> 30 \<le> width (sigDimensions s))"
    unfolding drag_update [OF d] inViewport_def by (auto simp add: min_def max_def)
next
  assume a: "\<not> isDragging s \<and> isResizing s \<and> width (initialResizeDims s) \<noteq> 0
        \<and> height (initialResizeDims s) \<noteq> 0"
  have w: "30 \<le> newWidth s r e" by (rule newWidth_ge)
  have u: "newWidth s r e \<le> rc_width r - pos_x (sigPosition s)
             \<longleftrightarrow> 30 \<le> rc_width r - pos_x (sigPosition s)"
    by (auto simp add: newWidth_def min_def max_def)
  from a have m: "handleGlobalMove s (Some r) e =
     Some (if pos_y (sigPosition s) + newHeight s r e \<le> rc_height r
           then s\<lparr>sigDimensions := \<lparr>width = newWidth s r e, height = newHeight s r e\<rparr>\<rparr>
           else s)"
    by (simp add: resize_update)
  show "\<exists>s'. handleGlobalMove s (Some r) e = Some s'
         \<and> (if pos_y (sigPosition s) + newHeight s r e \<le> rc_height r
             then s' = s\<lparr>sigDimensions := \<lparr>width = newWidth s r e, height = newHeight s r e\<rparr>\<rparr>
                  \<and> (inViewport s' r \<longleftrightarrow>
                       0 \<le> pos_x (sigPosition s) \<and> 0 \<le> pos_y (sigPosition s)
                       \<and> pos_x (sigPosition s) + 30 \<le> rc_width r)
             else s' = s)"
    unfolding m using w u by (auto simp add: inViewport_def)
qed

text \<open>
  Session A': the overlay is outside the viewport of page 2 before the drag and inside
  after it. On page 1 a resize update is applied (120 by 60, inside the viewport);
  against a viewport only 400 high (371 + 60 > 400) the same update is dropped.
\<close>

theorem overlay_update_bounds_witness:
  "\<not> inViewport (startDrag \<lparr>clientX = 419, clientY = 381\<rparr>
        \<lparr>rc_left = 409, rc_top = 371, rc_width = 100, rc_height = 50\<rparr> staleOnPage2) rect2
   \<and> handleGlobalMove (startDrag \<lparr>clientX = 419, clientY = 381\<rparr>
        \<lparr>rc_left = 409, rc_top = 371, rc_width = 100, rc_height = 50\<rparr> staleOnPage2)
        (Some rect2) \<lparr>clientX = 300, clientY = 300\<rparr> \<noteq> None
   \<and> inViewport (the (handleGlobalMove (startDrag \<lparr>clientX = 419, clientY = 381\<rparr>
        \<lparr>rc_left = 409, rc_top = 371, rc_width = 100, rc_height = 50\<rparr> staleOnPage2)
        (Some rect2) \<lparr>clientX = 300, clientY = 300\<rparr>)) rect2
   \<and> handleGlobalMove (startResize \<lparr>clientX = 509, clientY = 421\<rparr> placed)
        (Some rect1) \<lparr>clientX = 529, clientY = 421\<rparr>
       = Some ((startResize \<lparr>clientX = 509, clientY = 421\<rparr> placed)
                 \<lparr>sigDimensions := \<lparr>width = 120, height = 60\<rparr>\<rparr>)
   \<and> inViewport ((startResize \<lparr>clientX = 509, clientY = 421\<rparr> placed)
                 \<lparr>sigDimensions := \<lparr>width = 120, height = 60\<rparr>\<rparr>) rect1
   \<and> handleGlobalMove (startResize \<lparr>clientX = 509, clientY = 421\<rparr> placed)
        (Some \<lparr>rc_left = 0, rc_top = 0, rc_width = 918, rc_height = 400\<rparr>)
        \<lparr>clientX = 529, clientY = 421\<rparr>
       = Some (startResize \<lparr>clientX = 509, clientY = 421\<rparr> placed)"
proof -
  let ?d = "startDrag \<lparr>clientX = 419, clientY = 381\<rparr>
        \<lparr>rc_left = 409, rc_top = 371, rc_width = 100, rc_height = 50\<rparr> staleOnPage2"
  let ?s = "startResize \<lparr>clientX = 509, clientY = 421\<rparr> placed"
  let ?e = "\<lparr>clientX = 529, clientY = 421\<rparr>"
  let ?low = "\<lparr>rc_left = 0, rc_top = 0, rc_width = 918, rc_height = 400\<rparr>"
  have d: "isDragging ?d" "sigDimensions ?d = \<lparr>width = 100, height = 50\<rparr>"
    "sigPosition ?d = \<lparr>pos_x = 409, pos_y = 371\<rparr>"
    by (simp_all add: startDrag_def staleOnPage2_eq placed_eq initialWorkspace_def)
  have n: "\<not> inViewport ?d rect2" by (simp add: inViewport_def d rect2_def)
  from overlay_update_bounds [of ?d rect2 "\<lparr>clientX = 300, clientY = 300\<rparr>"] d(1)
  obtain d' where d': "handleGlobalMove ?d (Some rect2) \<lparr>clientX = 300, clientY = 300\<rparr> = Some d'"
    "inViewport d' rect2 \<longleftrightarrow> width (sigDimensions ?d) \<le> rc_width rect2
        \<and> height (sigDimensions ?d) \<le> rc_height rect2 \<and> 30 \<le> width (sigDimensions ?d)"
    by blast
  from d'(2) have "inViewport d' rect2" by (simp add: d rect2_def)
  with d'(1) have a: "handleGlobalMove ?d (Some rect2) \<lparr>clientX = 300, clientY = 300\<rparr> \<noteq> None"
    "inViewport (the (handleGlobalMove ?d (Some rect2) \<lparr>clientX = 300, clientY = 300\<rparr>)) rect2"
    by simp_all
  have s: "\<not> isDragging ?s" "isResizing ?s" "width (initialResizeDims ?s) \<noteq> 0"
    "height (initialResizeDims ?s) \<noteq> 0" "sigPosition ?s = \<lparr>pos_x = 409, pos_y = 371\<rparr>"
    by (simp_all add: startResize_def placed_eq initialWorkspace_def)
  have nw: "newWidth ?s rect1 ?e = 120" "newHeight ?s rect1 ?e = 60"
    by (simp_all add: newHeight_def newWidth_def startResize_def placed_eq initialWorkspace_def
        rect1_def)
  have r1: "rc_height rect1 = 1188" "rc_width rect1 = 918" by (simp_all add: rect1_def)
  have h1: "pos_y (sigPosition ?s) + newHeight ?s rect1 ?e \<le> rc_height rect1"
    by (simp add: nw s r1)
  have h2: "\<not> pos_y (sigPosition ?s) + newHeight ?s ?low ?e \<le> rc_height ?low"
    by (simp add: newHeight_def newWidth_def startResize_def placed_eq initialWorkspace_def)
  from overlay_update_bounds [of ?s rect1 ?e] s(1-4) h1
  obtain s1 where s1: "handleGlobalMove ?s (Some rect1) ?e = Some s1"
    "s1 = ?s\<lparr>sigDimensions := \<lparr>width = newWidth ?s rect1 ?e, height = newHeight ?s rect1 ?e\<rparr>\<rparr>"
    "inViewport s1 rect1 \<longleftrightarrow> 0 \<le> pos_x (sigPosition ?s) \<and> 0 \<le> pos_y (sigPosition ?s)
        \<and> pos_x (sigPosition ?s) + 30 \<le> rc_width rect1"
    by auto
  from s1(3) have "inViewport s1 rect1" by (simp add: s r1)
  with s1(1,2) have b: "handleGlobalMove ?s (Some rect1) ?e
       = Some (?s\<lparr>sigDimensions := \<lparr>width = 120, height = 60\<rparr>\<rparr>)"
    "inViewport (?s\<lparr>sigDimensions := \<lparr>width = 120, height = 60\<rparr>\<rparr>) rect1"
    by (simp_all add: nw)
  from overlay_update_bounds [of ?s ?low ?e] s(1-4) h2
  have c: "handleGlobalMove ?s (Some ?low) ?e = Some ?s" by auto
  from n a b c show ?thesis by blast
qed

text \<open>Hence an update of either kind keeps a box that is in the viewport there.\<close>

lemma update_preserves_inViewport:
  assumes "inViewport s r"
    and "isDragging s \<or> (isResizing s \<and> width (initialResizeDims s) \<noteq> 0
                             \<and> height (initialResizeDims s) \<noteq> 0)"
  shows "\<exists>s'. handleGlobalMove s (Some r) e = Some s' \<and> inViewport s' r"
proof (cases "isDragging s")
  case True
  from assms(1) show ?thesis
    unfolding drag_update [OF True] inViewport_def by (simp add: min_def max_def)
next
  case False
  with assms(2) have rs: "isResizing s" and nz: "width (initialResizeDims s) \<noteq> 0"
    "height (initialResizeDims s) \<noteq> 0" by auto
  have w: "30 \<le> newWidth s r e" by (rule newWidth_ge)
  have "newWidth s r e \<le> rc_width r - pos_x (sigPosition s)"
    using assms(1) by (simp add: newWidth_def inViewport_def)
  with w assms(1) show ?thesis
    unfolding resize_update [OF False rs nz] inViewport_def by simp
qed

text \<open>
  Claim C5. A resize update never changes \<open>position.x\<close> or \<open>position.y\<close>, and a resize
  update for which \<open>position.y + newHeight\<close> exceeds the viewport height is a complete
  no-op: the state, size and position included, is what it was. (The size recorded at
  the start of the resize has non-zero width and height, so that the quotients are
  numbers.)
\<close>

theorem resize_update_frame:
  assumes "\<not> isDragging s" and "isResizing s"
    and "width (initialResizeDims s) \<noteq> 0" and "height (initialResizeDims s) \<noteq> 0"
  shows "\<exists>s'. handleGlobalMove s (Some r) e = Some s'
           \<and> sigPosition s' = sigPosition s
           \<and> (pos_y (sigPosition s) + newHeight s r e > rc_height r \<longrightarrow> s' = s)"
  unfolding resize_update [OF assms] by simp

text \<open>
  On page 1 the overlay stays at (409, 371) under a resize update; against a viewport
  only 400 high (371 + 60 > 400) the same update changes nothing.
\<close>

theorem resize_update_frame_witness:
  "sigPosition (the (handleGlobalMove (startResize \<lparr>clientX = 509, clientY = 421\<rparr> placed)
        (Some rect1) \<lparr>clientX = 529, clientY = 421\<rparr>)) = \<lparr>pos_x = 409, pos_y = 371\<rparr>
   \<and> handleGlobalMove (startResize \<lparr>clientX = 509, clientY = 421\<rparr> placed)
        (Some \<lparr>rc_left = 0, rc_top = 0, rc_width = 918, rc_height = 400\<rparr>)
        \<lparr>clientX = 529, clientY = 421\<rparr>
       = Some (startResize \<lparr>clientX = 509, clientY = 421\<rparr> placed)"
proof -
  let ?s = "startResize \<lparr>clientX = 509, clientY = 421\<rparr> placed"
  let ?e = "\<lparr>clientX = 529, clientY = 421\<rparr>"
  let ?low = "\<lparr>rc_left = 0, rc_top = 0, rc_width = 918, rc_height = 400\<rparr>"
  have s: "\<not> isDragging ?s" "isResizing ?s" "width (initialResizeDims ?s) \<noteq> 0"
    "height (initialResizeDims ?s) \<noteq> 0" "sigPosition ?s = \<lparr>pos_x = 409, pos_y = 371\<rparr>"
    by (simp_all add: startResize_def placed_eq initialWorkspace_def)
  have h: "pos_y (sigPosition ?s) + newHeight ?s ?low ?e > rc_height ?low"
    by (simp add: newHeight_def newWidth_def startResize_def placed_eq initialWorkspace_def)
  from resize_update_frame [OF s(1-4), of rect1 ?e] s(5)
  have a: "sigPosition (the (handleGlobalMove ?s (Some rect1) ?e)) = \<lparr>pos_x = 409, pos_y = 371\<rparr>"
    by auto
  from resize_update_frame [OF s(1-4), of ?low ?e] h
  have b: "handleGlobalMove ?s (Some ?low) ?e = Some ?s" by auto
  from a b show ?thesis by simp
qed

section \<open>Aspect ratio\<close>

lemma resize_applied_ratio:
  assumes "\<not> isDragging s" and "isResizing s"
    and "width (initialResizeDims s) \<noteq> 0" and "height (initialResizeDims s) \<noteq> 0"
    and "handleGlobalMove s (Some r) e = Some s'" and "s' \<noteq> s"
  shows "width (sigDimensions s') / height (sigDimensions s')
           = width (initialResizeDims s) / height (initialResizeDims s)"
proof -
  have w: "newWidth s r e \<noteq> 0" using newWidth_ge [of s r e] by linarith
  from assms(5,6) have "s' = s\<lparr>sigDimensions := \<lparr>width = newWidth s r e, height = newHeight s r e\<rparr>\<rparr>"
    unfolding resize_update [OF assms(1-4)] by (simp split: if_splits)
  then show ?thesis using w assms(3,4) by (simp add: newHeight_def)
qed

text \<open>
  An applied resize at page 1: 120 by 60 has the ratio of the recorded size 100 by 50.
\<close>

theorem resize_applied_ratio_witness:
  "width (sigDimensions (the (handleGlobalMove (startResize \<lparr>clientX = 509, clientY = 421\<rparr> placed)
        (Some rect1) \<lparr>clientX = 529, clientY = 421\<rparr>)))
   / height (sigDimensions (the (handleGlobalMove (startResize \<lparr>clientX = 509, clientY = 421\<rparr> placed)
        (Some rect1) \<lparr>clientX = 529, clientY = 421\<rparr>)))
   = 100 / 50"
proof -
  let ?s = "startResize \<lparr>clientX = 509, clientY = 421\<rparr> placed"
  let ?e = "\<lparr>clientX = 529, clientY = 421\<rparr>"
  let ?s' = "?s\<lparr>sigDimensions := \<lparr>width = 120, height = 60\<rparr>\<rparr>"
  have s: "\<not> isDragging ?s" "isResizing ?s" "width (initialResizeDims ?s) \<noteq> 0"
    "height (initialResizeDims ?s) \<noteq> 0"
    by (simp_all add: startResize_def placed_eq initialWorkspace_def)
  have m: "handleGlobalMove ?s (Some rect1) ?e = Some ?s'"
    by (simp add: handleGlobalMove_def js_div_def startResize_def placed_eq initialWorkspace_def
        rect1_def Let_def)
  have "sigDimensions ?s' \<noteq> sigDimensions ?s"
    by (simp add: startResize_def placed_eq initialWorkspace_def)
  then have n: "?s' \<noteq> ?s" by metis
  from resize_applied_ratio [OF s m n]
  have "width (sigDimensions ?s') / height (sigDimensions ?s') = 100 / 50"
    by (simp add: startResize_def placed_eq initialWorkspace_def)
  then show ?thesis by (simp only: m option.sel)
qed

lemma ratio_step:
  assumes "0 < r" and "ratio_inv r s"
  shows "\<exists>s'. gesture_step g s = Some s' \<and> ratio_inv r s'"
proof (cases g)
  case (StartDrag e rect)
  with assms show ?thesis by (auto simp add: startDrag_def ratio_inv_def)
next
  case (StartResize e)
  with assms show ?thesis by (auto simp add: startResize_def ratio_inv_def)
next
  case MouseUp
  with assms show ?thesis by (auto simp add: handleGlobalUp_def ratio_inv_def)
next
  case (MouseMove canvas e)
  show ?thesis
  proof (cases canvas)
    case None
    with MouseMove assms(2) show ?thesis by (auto simp add: handleGlobalMove_def)
  next
    case (Some rc)
    show ?thesis
    proof (cases "isDragging s")
      case True
      with MouseMove Some assms show ?thesis
        by (auto simp add: drag_update ratio_inv_def)
    next
      case nd: False
      show ?thesis
      proof (cases "isResizing s")
        case False
        with nd MouseMove assms(2) show ?thesis by auto
      next
        case True
        with assms(2) have i: "0 < width (initialResizeDims s)" "0 < height (initialResizeDims s)"
          "width (initialResizeDims s) = r * height (initialResizeDims s)"
          by (simp_all add: ratio_inv_def)
        have q: "width (initialResizeDims s) / height (initialResizeDims s) = r"
          using i(2) by (simp add: i(3))
        have w: "0 < newWidth s rc e" using newWidth_ge [of s rc e] by linarith
        have h: "newHeight s rc e = newWidth s rc e / r"
          by (simp add: newHeight_def q)
        have hp: "0 < newHeight s rc e" using w assms(1) by (simp add: h)
        have wr: "newWidth s rc e = r * newHeight s rc e"
          using assms(1) by (simp add: h)
        have nz: "width (initialResizeDims s) \<noteq> 0" "height (initialResizeDims s) \<noteq> 0"
          using i(1,2) by simp_all
        let ?s1 = "s\<lparr>sigDimensions :=
                      \<lparr>width = newWidth s rc e, height = newHeight s rc e\<rparr>\<rparr>"
        have a: "ratio_inv r ?s1"
          unfolding ratio_inv_def using w hp wr i by simp
        have "gesture_step g s =
                Some (if pos_y (sigPosition s) + newHeight s rc e \<le> rc_height rc
                      then ?s1 else s)"
          using MouseMove Some True by (simp add: resize_update [OF nd True nz])
        with a assms(2) show ?thesis by simp
      qed
    qed
  qed
qed

lemma ratio_run:
  assumes "0 < r"
  shows "ratio_inv r s \<Longrightarrow> \<exists>s'. gesture_run gs s = Some s' \<and> ratio_inv r s'"
proof (induction gs arbitrary: s)
  case Nil
  then show ?case by simp
next
  case (Cons g gs)
  from ratio_step [OF assms Cons.prems] obtain s1 where
    s1: "gesture_step g s = Some s1" "ratio_inv r s1" by blast
  from Cons.IH [OF s1(2)] s1(1) show ?case by simp
qed

lemma loadedWhileResizing_eq:
  "loadedWhileResizing = Some (placed\<lparr>isResizing := True,
      resizeStart := \<lparr>pos_x = 509, pos_y = 421\<rparr>,
      initialResizeDims := \<lparr>width = 100, height = 50\<rparr>,
      sigDimensions := \<lparr>width = 100, height = 400 / 7\<rparr>\<rparr>)"
  by (simp add: loadedWhileResizing_def imgOnload_def startResize_def js_div_def placed_eq
      initialWorkspace_def Let_def)

text \<open>
  Claim C4, as stated: across resize updates the overlay's width / height equals the
  aspect ratio of the SignatureAsset, and each resize update takes its ratio from the
  asset, never from the live overlay. The handler reads \<open>initialResizeDims\<close>, the copy
  of the live overlay size that \<open>startResize\<close> made, and nothing of the asset. In
  session B the overlay has the asset's ratio 448 / 256 (100 by 400/7) when the update
  runs, and the update sets it to 120 by 60, the ratio 2 of the size recorded at the
  start of the resize.
\<close>

theorem resize_ratio_counterexample:
  "loadedWhileResizing \<noteq> None
   \<and> sigDimensions (the loadedWhileResizing) = \<lparr>width = 100, height = 400 / 7\<rparr>
   \<and> (100 :: real) / (400 / 7) = 448 / 256
   \<and> handleGlobalMove (the loadedWhileResizing) (Some rect1) \<lparr>clientX = 529, clientY = 421\<rparr>
       = Some ((the loadedWhileResizing)\<lparr>sigDimensions := \<lparr>width = 120, height = 60\<rparr>\<rparr>)
   \<and> (120 :: real) / 60 \<noteq> 448 / 256"
  by (simp add: loadedWhileResizing_eq handleGlobalMove_def js_div_def placed_eq
      initialWorkspace_def rect1_def Let_def)

text \<open>
  Claim C4, amended. Each resize update takes its ratio from the overlay size recorded
  when the resize started (\<open>initialResizeDims\<close>), not from the SignatureAsset. When the
  overlay size has been set from the decoded signature image (positive intrinsic width
  and height) and no resize is in progress, then across any sequence of pointer events
  (start of a drag, start of a resize, moves, releases) every update completes and the
  overlay's width / height equals the image's width / height, in exact arithmetic.
\<close>

theorem gestures_keep_asset_ratio:
  assumes "0 < width img" and "0 < height img" and "\<not> isResizing s0"
  shows "\<exists>s s'. imgOnload img s0 = Some s \<and> gesture_run gs s = Some s'
           \<and> width (sigDimensions s') / height (sigDimensions s') = width img / height img"
proof -
  let ?r = "width img / height img"
  let ?s = "s0\<lparr>sigDimensions := \<lparr>width = 100, height = 100 / ?r\<rparr>\<rparr>"
  have r: "0 < ?r" using assms by simp
  have l: "imgOnload img s0 = Some ?s"
    using assms by (simp add: imgOnload_def js_div_def Let_def)
  have "ratio_inv ?r ?s" using r assms by (simp add: ratio_inv_def)
  from ratio_run [OF r this] obtain s' where
    s': "gesture_run gs ?s = Some s'" "ratio_inv ?r s'" by blast
  from s'(2) have "width (sigDimensions s') / height (sigDimensions s') = ?r"
    by (simp add: ratio_inv_def)
  with l s'(1) show ?thesis by blast
qed

theorem gestures_keep_asset_ratio_witness:
  "width (sigDimensions (the (gesture_run
       [StartResize \<lparr>clientX = 509, clientY = 421\<rparr>,
        MouseMove (Some rect1) \<lparr>clientX = 529, clientY = 421\<rparr>,
        MouseUp] (the (imgOnload \<lparr>width = 448, height = 256\<rparr> placed)))))
   / height (sigDimensions (the (gesture_run
       [StartResize \<lparr>clientX = 509, clientY = 421\<rparr>,
        MouseMove (Some rect1) \<lparr>clientX = 529, clientY = 421\<rparr>,
        MouseUp] (the (imgOnload \<lparr>width = 448, height = 256\<rparr> placed)))))
   = 448 / 256"
proof -
  have a: "\<not> isResizing placed" by (simp add: placed_eq initialWorkspace_def)
  from gestures_keep_asset_ratio [of "\<lparr>width = 448, height = 256\<rparr>" placed
      "[StartResize \<lparr>clientX = 509, clientY = 421\<rparr>,
        MouseMove (Some rect1) \<lparr>clientX = 529, clientY = 421\<rparr>, MouseUp]"] a
  show ?thesis by auto
qed

section \<open>Page navigation\<close>

text \<open>
  Claim C7, as stated: the navigator itself rejects or clamps a request for page 0 or
  page \<open>pageCount + 1\<close>, apart from the buttons being disabled. There is no
  \<open>goToPage\<close> and no clamp: the updaters are \<open>p - 1\<close> and \<open>p + 1\<close>. On a five-page
  document the "previous" updater takes page 1 to page 0 and the "next" updater takes
  page 5 to page 6.
\<close>

theorem onClick_unclamped_counterexample:
  "currentPage (prevOnClick (initialWorkspace 5)) = 0
   \<and> currentPage (nextOnClick ((initialWorkspace 5)\<lparr>currentPage := 5\<rparr>)) = 6"
  by (simp add: prevOnClick_def nextOnClick_def initialWorkspace_def)

text \<open>
  Claim C7, amended. Out-of-range navigation is refused by the buttons only: at page 1
  (or below) the "previous" button is disabled and a click on it leaves the current page
  unchanged, at \<open>pageCount\<close> (or above) so is the "next" button, and clicks keep
  \<open>1 \<le> currentPage \<le> pageCount\<close> once it holds. The updaters behind the buttons do not
  check the range.
\<close>

theorem navigation_buttons_keep_range:
  "(currentPage s \<le> 1 \<longrightarrow> clickPrev s = s)
   \<and> (numPages s \<le> currentPage s \<longrightarrow> clickNext s = s)
   \<and> (1 \<le> currentPage s \<and> currentPage s \<le> numPages s \<longrightarrow>
        1 \<le> currentPage (clickPrev s) \<and> currentPage (clickPrev s) \<le> numPages (clickPrev s)
        \<and> 1 \<le> currentPage (clickNext s) \<and> currentPage (clickNext s) \<le> numPages (clickNext s))"
  by (simp add: clickPrev_def clickNext_def prevDisabled_def nextDisabled_def prevOnClick_def
      nextOnClick_def)

theorem navigation_buttons_keep_range_witness:
  "clickPrev (initialWorkspace 5) = initialWorkspace 5
   \<and> clickNext ((initialWorkspace 5)\<lparr>currentPage := 5\<rparr>) = (initialWorkspace 5)\<lparr>currentPage := 5\<rparr>
   \<and> currentPage (clickNext (initialWorkspace 5)) = 2"
proof -
  have a: "currentPage (initialWorkspace 5) \<le> 1" by (simp add: initialWorkspace_def)
  have b: "numPages ((initialWorkspace 5)\<lparr>currentPage := 5\<rparr>)
             \<le> currentPage ((initialWorkspace 5)\<lparr>currentPage := 5\<rparr>)"
    by (simp add: initialWorkspace_def)
  have c: "currentPage (clickNext (initialWorkspace 5)) = 2"
    by (simp add: clickNext_def nextDisabled_def nextOnClick_def initialWorkspace_def)
  from navigation_buttons_keep_range [of "initialWorkspace 5"] a
  have p: "clickPrev (initialWorkspace 5) = initialWorkspace 5" by blast
  from navigation_buttons_keep_range [of "(initialWorkspace 5)\<lparr>currentPage := 5\<rparr>"] b
  have n: "clickNext ((initialWorkspace 5)\<lparr>currentPage := 5\<rparr>)
             = (initialWorkspace 5)\<lparr>currentPage := 5\<rparr>" by blast
  from p n c show ?thesis by simp
qed

section \<open>Overlay initialisation\<close>

lemma renderCompleted_first:
  "\<not> cl_initialized cl \<Longrightarrow>
     sigPosition (renderCompleted cl (Some c) s) =
       \<lparr>pos_x = width c / 2 - width (cl_sigDimensions cl) / 2,
        pos_y = height c / 3 - height (cl_sigDimensions cl) / 2\<rparr>
     \<and> initialized (renderCompleted cl (Some c) s)"
  by (simp add: renderCompleted_def Let_def)

lemma renderCompleted_later:
  "cl_initialized cl \<Longrightarrow> sigPosition (renderCompleted cl canvas s) = sigPosition s"
  by (simp add: renderCompleted_def Let_def split: option.splits)

text \<open>
  Renders that do not overlap centre the overlay once: a render started after the flag
  is set leaves the position alone.
\<close>

lemma renderPage_once:
  "initialized s \<Longrightarrow> sigPosition (renderPage c s) = sigPosition s \<and> initialized (renderPage c s)"
  by (simp add: renderPage_def renderEffect_def renderClosure_def renderCompleted_def Let_def)

theorem renderPage_once_witness:
  "sigPosition (renderPage canvas2 (clickNext placed)) = \<lparr>pos_x = 409, pos_y = 371\<rparr>"
proof -
  have "initialized (clickNext placed)"
    by (simp add: clickNext_def nextOnClick_def placed_eq initialWorkspace_def)
  from renderPage_once [OF this, of canvas2] show ?thesis
    by (simp add: clickNext_def nextDisabled_def nextOnClick_def placed_eq initialWorkspace_def)
qed

lemma firstDone_eq:
  "firstDone = (initialWorkspace 2)\<lparr>currentPage := 2, isRendering := False,
     initialized := True, sigPosition := \<lparr>pos_x = 409, pos_y = 371\<rparr>\<rparr>"
  by (simp add: firstDone_def firstClosure_def nextClicked_def renderEffect_def
      renderClosure_def renderCompleted_def clickNext_def nextDisabled_def nextOnClick_def
      canvas1_def initialWorkspace_def Let_def)

lemma movedBetween_eq:
  "movedBetween = Some (firstDone\<lparr>sigPosition := \<lparr>pos_x = 100, pos_y = 200\<rparr>,
     dragOffset := \<lparr>pos_x = 10, pos_y = 10\<rparr>\<rparr>)"
  by (simp add: movedBetween_def firstDone_eq startDrag_def handleGlobalMove_def handleGlobalUp_def
      rect1_def initialWorkspace_def Let_def)

text \<open>
  Claim C8: the overlay is centred exactly once per session, and the \<open>initialized\<close>
  flag keeps any later page change from centring it again. Session C shows the program
  centring twice. Both render effects were created while \<open>initialized\<close> was false, and
  each continuation tests the value in its own closure: the first completion centres the
  overlay at (409, 371) and sets the flag; the user moves the overlay to (100, 200); the
  second completion, for the page change, centres it again, at (175, 175).
\<close>

theorem overlapping_renders_recentre:
  "cl_initialized firstClosure = False
   \<and> cl_initialized secondClosure = False
   \<and> initialized firstDone
   \<and> isRendering firstDone = False
   \<and> sigPosition firstDone = \<lparr>pos_x = 409, pos_y = 371\<rparr>
   \<and> map_option initialized movedBetween = Some True
   \<and> map_option sigPosition movedBetween = Some \<lparr>pos_x = 100, pos_y = 200\<rparr>
   \<and> map_option sigPosition secondDone = Some \<lparr>pos_x = 175, pos_y = 175\<rparr>"
  by (simp add: secondDone_def movedBetween_eq firstDone_eq secondClosure_def firstClosure_def
      nextClicked_def renderEffect_def renderClosure_def renderCompleted_def clickNext_def
      nextDisabled_def nextOnClick_def canvas2_def initialWorkspace_def Let_def)

section \<open>Finish\<close>

text \<open>
  Claim C9. A finish makes exactly one \<open>embedSignature\<close> call, hence one
  \<open>page.drawImage\<close> request, and the mapping is deterministic: two finishes with the
  same overlay position and size, the same page index and the same rendered page
  dimensions pass the same document-space rectangle, whatever else differs in the state.
  (The canvas is mounted, as it is whenever the Finish button can be clicked.)
\<close>

theorem finish_one_call_deterministic:
  "length (handleFinish s (Some c)) = 1
   \<and> length (finishDraws pages s (Some c)) = 1
   \<and> (sigPosition s' = sigPosition s \<and> sigDimensions s' = sigDimensions s
        \<and> currentPage s' = currentPage s \<longrightarrow>
      handleFinish s' (Some c) = handleFinish s (Some c)
      \<and> finishDraws pages s' (Some c) = finishDraws pages s (Some c))"
  by (simp add: handleFinish_def finishDraws_def)

theorem finish_one_call_deterministic_witness:
  "finishDraws [\<lparr>width = 612, height = 792\<rparr>, \<lparr>width = 300, height = 400\<rparr>]
      (placed\<lparr>isProcessing := True\<rparr>) (Some canvas1)
   = finishDraws [\<lparr>width = 612, height = 792\<rparr>, \<lparr>width = 300, height = 400\<rparr>]
      placed (Some canvas1)
   \<and> finishDraws [\<lparr>width = 612, height = 792\<rparr>, \<lparr>width = 300, height = 400\<rparr>]
      placed (Some canvas1)
     = [Inr (Some \<lparr>opt_x = 818 / 3, opt_y = 1534 / 3, opt_width = 200 / 3, opt_height = 100 / 3\<rparr>)]"
proof -
  have e: "finishDraws [\<lparr>width = 612, height = 792\<rparr>, \<lparr>width = 300, height = 400\<rparr>]
      placed (Some canvas1)
     = [Inr (Some \<lparr>opt_x = 818 / 3, opt_y = 1534 / 3, opt_width = 200 / 3, opt_height = 100 / 3\<rparr>)]"
    by (simp add: finishDraws_def handleFinish_def embedSignature_def drawImageOptions_def
        js_div_def placed_eq initialWorkspace_def canvas1_def Let_def)
  from finish_one_call_deterministic [of placed canvas1
      "[\<lparr>width = 612, height = 792\<rparr>, \<lparr>width = 300, height = 400\<rparr>]" "placed\<lparr>isProcessing := True\<rparr>"]
  have "finishDraws [\<lparr>width = 612, height = 792\<rparr>, \<lparr>width = 300, height = 400\<rparr>]
      (placed\<lparr>isProcessing := True\<rparr>) (Some canvas1)
   = finishDraws [\<lparr>width = 612, height = 792\<rparr>, \<lparr>width = 300, height = 400\<rparr>]
      placed (Some canvas1)" by simp
  with e show ?thesis by simp
qed

section \<open>The signature pad\<close>

text \<open>
  Claim C10. \<open>hasSignature\<close> becomes true exactly when a move arrives while drawing is
  active (the 2D context being there); a pointer-down followed by a pointer-up with no
  move in between leaves it false and the "Use Signature" button disabled; no event but
  a move sets it, and no event but Clear resets it.
\<close>

theorem hasSignature_set_by_draw_only:
  "hasSignature (draw True p) = (hasSignature p \<or> isDrawing p)
   \<and> hasSignature (draw False p) = hasSignature p
   \<and> \<not> hasSignature (stopDrawing (startDrawing ctx initialPad))
   \<and> saveDisabled (stopDrawing (startDrawing ctx initialPad))
   \<and> (ev \<noteq> PointerMove \<and> \<not> hasSignature p \<longrightarrow> \<not> hasSignature (pad_step ctx ev p))
   \<and> (ev \<noteq> Clear \<and> hasSignature p \<longrightarrow> hasSignature (pad_step ctx ev p))"
  by (cases ev)
     (simp_all add: draw_def startDrawing_def stopDrawing_def clearSignature_def saveDisabled_def
        initialPad_def)

theorem hasSignature_set_by_draw_only_witness:
  "hasSignature (pad_step True PointerUp (draw True (startDrawing True initialPad)))
   \<and> \<not> hasSignature (pad_step True PointerDown (clearSignature True
          (draw True (startDrawing True initialPad))))"
proof -
  have a: "hasSignature (draw True (startDrawing True initialPad))"
    by (simp add: draw_def startDrawing_def initialPad_def)
  have b: "\<not> hasSignature (clearSignature True (draw True (startDrawing True initialPad)))"
    by (simp add: clearSignature_def)
  from hasSignature_set_by_draw_only [of "draw True (startDrawing True initialPad)" True PointerUp] a
  have c: "hasSignature (pad_step True PointerUp (draw True (startDrawing True initialPad)))"
    by simp
  from hasSignature_set_by_draw_only
    [of "clearSignature True (draw True (startDrawing True initialPad))" True PointerDown] b
  have d: "\<not> hasSignature (pad_step True PointerDown (clearSignature True
          (draw True (startDrawing True initialPad))))"
    by simp
  from c d show ?thesis by simp
qed

end
